theory Spec2Isabelle
  imports Main "HOL-Library.Word"
begin

unbundle bit_operations_syntax

section \<open>The data of SignalHandler.hpp\<close>

text \<open>
  A function pointer is the address it holds; \<open>nullptr\<close> is address 0. A \<open>sigset_t\<close> is
  the set of signal numbers it contains, so the all-zero bit pattern written by
  \<open>memset\<close> is the empty set.
\<close>

type_synonym fnptr = nat

type_synonym sigset_t = "int set"

definition nullptr :: fnptr where
  "nullptr = 0"

text \<open>
  \<open>struct sigaction\<close> of \<open><csignal>\<close>. The members \<open>sa_handler\<close> and \<open>sa_sigaction\<close> are
  kept apart, as the source names them; \<open>sa_flags\<close> is a C \<open>int\<close>, used bitwise only.
\<close>

record sigaction_t =
  sa_handler :: fnptr
  sa_sigaction :: fnptr
  sa_mask :: sigset_t
  sa_flags :: "32 word"
  sa_restorer :: fnptr

text \<open>The value \<open>memset(&a, 0, sizeof(a))\<close> leaves in a \<open>struct sigaction\<close>.\<close>

definition zero_sigaction :: sigaction_t where
  "zero_sigaction =
     \<lparr>sa_handler = 0, sa_sigaction = 0, sa_mask = {}, sa_flags = 0, sa_restorer = 0\<rparr>"

text \<open>
  The constants of the system headers (\<open><csignal>\<close>, \<open><sysexits.h>\<close>) that the source
  names. Their values belong to the platform, so every operation that uses one takes
  the table as a parameter; \<open>linux\<close> is the table of Linux on x86.
\<close>

record sysconsts =
  SIGHUP :: int
  SIGKILL :: int
  SIGSTOP :: int
  SIGRTMAX :: int
  SA_SIGINFO :: "32 word"
  SIG_IGN :: fnptr
  EX_OSERR :: int

definition linux :: sysconsts where
  "linux = \<lparr>SIGHUP = 1, SIGKILL = 9, SIGSTOP = 19, SIGRTMAX = 64, SA_SIGINFO = 4,
     SIG_IGN = 1, EX_OSERR = 71\<rparr>"

text \<open>
  The exceptions the source throws. \<open>std::invalid_argument\<close> and \<open>std::logic_error\<close> carry
  their message; the system error carries the name of the failed call and \<open>errno\<close>.
\<close>

datatype exn =
  Invalid_argument string
| Logic_error string
| System_error string int

text \<open>The four data members of class \<open>SignalHandler\<close>.\<close>

record SignalHandler =
  signal_number :: int
  established :: bool
  curent_signal_action :: sigaction_t
  old_signal_action :: sigaction_t

section \<open>The process around the object\<close>

text \<open>
  The streams a process can write diagnostics to, and the state of the process that the
  class reads or writes: the kernel's table of signal dispositions, \<open>errno\<close>, the static
  member \<open>error_stream\<close> and what has been written to each stream. \<open>ncalls\<close> counts the
  calls of \<open>sigaction\<close> made so far and \<open>outcome k\<close> is the error number with which the
  kernel answers call number \<open>k\<close> (0 when it performs the call), so that any pattern of
  failing calls is a process state.
\<close>

datatype stream = Cerr | Stream nat

record world =
  disposition :: "int \<Rightarrow> sigaction_t"
  outcome :: "nat \<Rightarrow> int"
  ncalls :: nat
  errno :: int
  error_stream :: stream
  written :: "stream \<Rightarrow> exn list"

text \<open>
  A process at its start: line 28 of SignalHandler.cpp initialises the static member
  \<open>error_stream\<close> with the address of \<open>std::cerr\<close>.
\<close>

definition process_start :: "(int \<Rightarrow> sigaction_t) \<Rightarrow> (nat \<Rightarrow> int) \<Rightarrow> world" where
  "process_start table answers =
     \<lparr>disposition = table, outcome = answers, ncalls = 0, errno = 0,
      error_stream = Cerr, written = (\<lambda>s. [])\<rparr>"

definition set_error_stream :: "stream \<Rightarrow> world \<Rightarrow> world" where
  "set_error_stream s w = w\<lparr>error_stream := s\<rparr>"

text \<open>
  Modelled from the spec: the system call \<open>sigaction(signum, act, oldact)\<close> is the
  operating system's, not the repository's. It swaps the active disposition of the
  signal for \<open>act\<close> and, when an output slot is given (\<open>want_old\<close>), reports what was
  active before the swap; a failing call returns \<open>-1\<close>, sets \<open>errno\<close> and changes
  nothing else. The source always passes a non-null \<open>act\<close>. The result is the status,
  the value written to the output slot (if any) and the new process state.
\<close>

definition sigaction ::
  "int \<Rightarrow> sigaction_t \<Rightarrow> bool \<Rightarrow> world \<Rightarrow> int \<times> sigaction_t option \<times> world" where
  "sigaction signum act want_old w =
     (let e = outcome w (ncalls w);
          w1 = w\<lparr>ncalls := Suc (ncalls w)\<rparr>
      in if e \<noteq> 0 then (- 1, None, w1\<lparr>errno := e\<rparr>)
         else (0,
               (if want_old then Some (disposition w signum) else None),
               w1\<lparr>disposition := (disposition w)(signum := act)\<rparr>))"

text \<open>
  Modelled from the spec: \<open>sysexcept\<close> of common_header/sysexcept.hpp is not among the
  sources. When its condition holds it raises the system-call failure that carries the
  name of the failing operation and the error code; otherwise it does nothing.
\<close>

definition sysexcept :: "bool \<Rightarrow> string \<Rightarrow> int \<Rightarrow> exn + unit" where
  "sysexcept failed call_name code =
     (if failed then Inl (System_error call_name code) else Inr ())"

text \<open>
  How a destructor ends: it returns, or the process has exited with a status.
\<close>

datatype fate = Returned | Exited int

text \<open>
  Modelled from the spec: \<open>destructor_exception_terminate\<close> of
  common_header/destructor_exception.hpp is not among the sources. It reports the
  failure's description to the given stream and terminates the process at once with the
  given exit status. The stream's log keeps the exception whose description was written.
\<close>

definition destructor_exception_terminate ::
  "exn \<Rightarrow> stream \<Rightarrow> int \<Rightarrow> world \<Rightarrow> fate \<times> world" where
  "destructor_exception_terminate e s status w =
     (Exited status, w\<lparr>written := (written w)(s := written w s @ [e])\<rparr>)"

section \<open>The constructors\<close>

text \<open>
  \<open>SignalHandler(int, SignalHandler_t, int, sigset_t*)\<close>, lines 30 to 62. The member
  \<open>old_signal_action\<close> is not initialised: it holds whatever the memory held, which is the
  parameter \<open>uninit\<close>. A null \<open>blocked_signals\<close> is \<open>None\<close>. The checks run in the order
  of the source; each \<open>throw\<close> is an \<open>Inl\<close>.
\<close>

definition SignalHandler_ctor ::
  "sysconsts \<Rightarrow> sigaction_t \<Rightarrow> int \<Rightarrow> fnptr \<Rightarrow> 32 word \<Rightarrow> sigset_t option \<Rightarrow> world
     \<Rightarrow> (exn + SignalHandler) \<times> world" where
  "SignalHandler_ctor K uninit signal_no handler_function flags blocked_signals w =
     (let act = zero_sigaction in
      if handler_function = nullptr then
        (Inl (Invalid_argument
           ''Unable to establish a signal handler with no handler function.''), w)
      else if flags AND SA_SIGINFO K \<noteq> 0 then
        (Inl (Invalid_argument
           ''Flag SA_SIGINFO, but handler function is of the wrong type.''), w)
      else if signal_no < SIGHUP K \<or> signal_no > SIGRTMAX K then
        (Inl (Invalid_argument ''Invalid signal number (out of range).''), w)
      else if signal_no = SIGKILL K then
        (Inl (Invalid_argument ''Action for signal SIGKILL can not be changed.''), w)
      else if signal_no = SIGSTOP K then
        (Inl (Invalid_argument ''Action for signal SIGSTOP can not be changed.''), w)
      else
        let act1 = act\<lparr>sa_handler := handler_function, sa_flags := flags\<rparr>;
            act2 = (case blocked_signals of
                      None \<Rightarrow> act1
                    | Some m \<Rightarrow> act1\<lparr>sa_mask := m\<rparr>)
        in (Inr \<lparr>signal_number = signal_no, established = False,
                 curent_signal_action = act2, old_signal_action = uninit\<rparr>, w))"

text \<open>
  \<open>SignalHandler(int, SignalHandler_extended_t, int, sigset_t*)\<close>, lines 64 to 96. The
  flag is forced first; the test of line 86 compares with \<open>SIGKILL\<close> a second time.
\<close>

definition SignalHandler_ctor_extended ::
  "sysconsts \<Rightarrow> sigaction_t \<Rightarrow> int \<Rightarrow> fnptr \<Rightarrow> 32 word \<Rightarrow> sigset_t option \<Rightarrow> world
     \<Rightarrow> (exn + SignalHandler) \<times> world" where
  "SignalHandler_ctor_extended K uninit signal_no handler_function flags blocked_signals w =
     (let act = zero_sigaction;
          flags1 = flags OR SA_SIGINFO K
      in
      if handler_function = nullptr then
        (Inl (Invalid_argument
           ''Unable to establish a signal handler with no handler function.''), w)
      else if signal_no < SIGHUP K \<or> signal_no > SIGRTMAX K then
        (Inl (Logic_error ''Invalid signal number (out of range).''), w)
      else if signal_no = SIGKILL K then
        (Inl (Logic_error ''Action for signal SIGKILL can not be changed.''), w)
      else if signal_no = SIGKILL K then
        (Inl (Logic_error ''Action for signal SIGSTOP can not be changed.''), w)
      else
        let act1 = act\<lparr>sa_sigaction := handler_function, sa_flags := flags1\<rparr>;
            act2 = (case blocked_signals of
                      None \<Rightarrow> act1
                    | Some m \<Rightarrow> act1\<lparr>sa_mask := m\<rparr>)
        in (Inr \<lparr>signal_number = signal_no, established = False,
                 curent_signal_action = act2, old_signal_action = uninit\<rparr>, w))"

section \<open>establish, revoke, ignore\<close>

text \<open>
  Each member function takes the object and the process state and returns what it threw
  (or \<open>Inr ()\<close>), the object as it is afterwards and the new process state.
\<close>

definition establish :: "SignalHandler \<Rightarrow> world \<Rightarrow> (exn + unit) \<times> SignalHandler \<times> world" where
  "establish this w =
     (let (temp, this1, w1) =
            (if \<not> established this then
               (case sigaction (signal_number this) (curent_signal_action this) True w of
                  (t, slot, w') \<Rightarrow>
                    (t,
                     (case slot of
                        None \<Rightarrow> this
                      | Some a \<Rightarrow> this\<lparr>old_signal_action := a\<rparr>),
                     w'))
             else
               (case sigaction (signal_number this) (curent_signal_action this) False w of
                  (t, slot, w') \<Rightarrow> (t, this, w')))
      in case sysexcept (temp \<noteq> 0) ''sigaction'' (errno w1) of
           Inl e \<Rightarrow> (Inl e, this1, w1)
         | Inr u \<Rightarrow> (Inr (), this1\<lparr>established := True\<rparr>, w1))"

definition revoke :: "SignalHandler \<Rightarrow> world \<Rightarrow> (exn + unit) \<times> SignalHandler \<times> world" where
  "revoke this w =
     (if \<not> established this then
        (Inl (Logic_error
           ''revoking a signal handler that has not been established will result in undefined behavior.''),
         this, w)
      else
        (case sigaction (signal_number this) (old_signal_action this) False w of
           (temp, slot, w1) \<Rightarrow>
             (case sysexcept (temp \<noteq> 0) ''sigaction'' (errno w1) of
                Inl e \<Rightarrow> (Inl e, this, w1)
              | Inr u \<Rightarrow> (Inr (), this\<lparr>established := False\<rparr>, w1))))"

text \<open>The action \<open>ignore\<close> builds at lines 171 to 173.\<close>

definition ignore_action :: "sysconsts \<Rightarrow> sigaction_t" where
  "ignore_action K = zero_sigaction\<lparr>sa_handler := SIG_IGN K\<rparr>"

definition ignore ::
  "sysconsts \<Rightarrow> SignalHandler \<Rightarrow> world \<Rightarrow> (exn + unit) \<times> SignalHandler \<times> world" where
  "ignore K this w =
     (case sigaction (signal_number this) (ignore_action K) False w of
        (temp, slot, w1) \<Rightarrow>
          (case sysexcept (temp \<noteq> 0) ''sigaction'' (errno w1) of
             Inl e \<Rightarrow> (Inl e, this, w1)
           | Inr u \<Rightarrow> (Inr (), this, w1)))"

section \<open>Destruction and moves\<close>

text \<open>
  \<open>~SignalHandler\<close>, lines 118 to 131: whatever \<open>revoke\<close> throws is caught and handed to
  \<open>destructor_exception_terminate\<close> with the stream \<open>error_stream\<close> points to and
  \<open>EX_OSERR\<close>.
\<close>

definition SignalHandler_dtor :: "sysconsts \<Rightarrow> SignalHandler \<Rightarrow> world \<Rightarrow> fate \<times> world" where
  "SignalHandler_dtor K this w =
     (if established this then
        (case revoke this w of
           (Inl e, this1, w1) \<Rightarrow>
             destructor_exception_terminate e (error_stream w1) (EX_OSERR K) w1
         | (Inr u, this1, w1) \<Rightarrow> (Returned, w1))
      else (Returned, w))"

text \<open>
  The moves need the identity of the two objects (\<open>this != &other\<close>), so they work on a
  store of objects by address. \<open>std::move\<close> of an \<open>int\<close>, a \<open>bool\<close> or a \<open>struct sigaction\<close>
  copies the value and leaves the source member as it was.
\<close>

type_synonym addr = nat

type_synonym store = "addr \<Rightarrow> SignalHandler"

definition SignalHandler_move :: "addr \<Rightarrow> addr \<Rightarrow> store \<Rightarrow> store" where
  "SignalHandler_move this other s =
     s(this := \<lparr>signal_number = signal_number (s other),
                established = established (s other),
                curent_signal_action = curent_signal_action (s other),
                old_signal_action = old_signal_action (s other)\<rparr>)"

definition move_assign :: "addr \<Rightarrow> addr \<Rightarrow> store \<Rightarrow> store" where
  "move_assign this other s =
     (if this \<noteq> other then
        s(this := (s this)\<lparr>signal_number := signal_number (s other),
                           established := established (s other),
                           curent_signal_action := curent_signal_action (s other),
                           old_signal_action := old_signal_action (s other)\<rparr>)
      else s)"

text \<open>Destroying the object that lives at an address.\<close>

definition destroy :: "sysconsts \<Rightarrow> addr \<Rightarrow> store \<Rightarrow> world \<Rightarrow> fate \<times> world" where
  "destroy K a s w = SignalHandler_dtor K (s a) w"

section \<open>Sequences of calls on one object\<close>

text \<open>
  A caller's use of one guard is a list of calls; an exception is caught by the caller,
  who carries on with the next call. \<open>run\<close> returns the result of every call, the object
  and the process state at the end.
\<close>

datatype call = Establish | Revoke | Ignore

fun exec :: "sysconsts \<Rightarrow> call \<Rightarrow> SignalHandler \<Rightarrow> world
     \<Rightarrow> (exn + unit) \<times> SignalHandler \<times> world" where
  "exec K Establish g w = establish g w"
| "exec K Revoke g w = revoke g w"
| "exec K Ignore g w = ignore K g w"

fun run :: "sysconsts \<Rightarrow> call list \<Rightarrow> SignalHandler \<Rightarrow> world
     \<Rightarrow> (exn + unit) list \<times> SignalHandler \<times> world" where
  "run K [] g w = ([], g, w)"
| "run K (c # cs) g w =
     (case exec K c g w of
        (r, g1, w1) \<Rightarrow> (case run K cs g1 w1 of (rs, g2, w2) \<Rightarrow> (r # rs, g2, w2)))"

text \<open>
  A concrete guard and process for the examples: signal 10 (\<open>SIGUSR1\<close> on Linux), a
  handler at address 4242, some earlier content of the memory of \<open>old_signal_action\<close>,
  every disposition the default one and a kernel that performs every call.
\<close>

definition stale :: sigaction_t where
  "stale = zero_sigaction\<lparr>sa_handler := 77\<rparr>"

definition guard0 :: SignalHandler where
  "guard0 = \<lparr>signal_number = 10, established = False,
     curent_signal_action = zero_sigaction\<lparr>sa_handler := 4242\<rparr>,
     old_signal_action = stale\<rparr>"

definition world0 :: world where
  "world0 = process_start (\<lambda>n. zero_sigaction) (\<lambda>k. 0)"

text \<open>A process whose kernel refuses every call with error 22 (\<open>EINVAL\<close> on Linux).\<close>

definition failing_world :: world where
  "failing_world = process_start (\<lambda>n. zero_sigaction) (\<lambda>k. 22)"

text \<open>
  The three components of what a member function or a run returns: what was thrown (or
  the results of the calls), the object afterwards, the process state afterwards.
\<close>

abbreviation result :: "'a \<times> 'b \<times> 'c \<Rightarrow> 'a" where
  "result x \<equiv> fst x"

abbreviation object :: "'a \<times> 'b \<times> 'c \<Rightarrow> 'b" where
  "object x \<equiv> fst (snd x)"

abbreviation process :: "'a \<times> 'b \<times> 'c \<Rightarrow> 'c" where
  "process x \<equiv> snd (snd x)"

text \<open>
  The process after \<open>guard0\<close> has been established in \<open>world0\<close>, and a store of objects in
  which address 0 holds that established guard and every other address the guard as
  constructed.
\<close>

definition world1 :: world where
  "world1 = process (establish guard0 world0)"

definition store0 :: store where
  "store0 = (\<lambda>p. guard0)(0 := object (establish guard0 world0))"

section \<open>Basic facts\<close>

lemma sigaction_ok:
  "outcome w (ncalls w) = 0 \<Longrightarrow>
   sigaction n a b w =
     (0, (if b then Some (disposition w n) else None),
      w\<lparr>ncalls := Suc (ncalls w), disposition := (disposition w)(n := a)\<rparr>)"
  by (simp add: sigaction_def Let_def)

lemma sigaction_fail:
  "outcome w (ncalls w) \<noteq> 0 \<Longrightarrow>
   sigaction n a b w =
     (- 1, None, w\<lparr>ncalls := Suc (ncalls w), errno := outcome w (ncalls w)\<rparr>)"
  by (simp add: sigaction_def Let_def)

lemma establish_ok:
  "outcome w (ncalls w) = 0 \<Longrightarrow>
   establish g w =
     (Inr (),
      g\<lparr>old_signal_action := (if established g then old_signal_action g
                               else disposition w (signal_number g)),
        established := True\<rparr>,
      w\<lparr>ncalls := Suc (ncalls w),
        disposition := (disposition w)(signal_number g := curent_signal_action g)\<rparr>)"
  by (simp add: establish_def sigaction_ok sysexcept_def)

lemma establish_fail:
  "outcome w (ncalls w) \<noteq> 0 \<Longrightarrow>
   establish g w =
     (Inl (System_error ''sigaction'' (outcome w (ncalls w))), g,
      w\<lparr>ncalls := Suc (ncalls w), errno := outcome w (ncalls w)\<rparr>)"
  by (simp add: establish_def sigaction_fail sysexcept_def)

lemma revoke_not_established:
  "\<not> established g \<Longrightarrow>
   revoke g w = (Inl (Logic_error
     ''revoking a signal handler that has not been established will result in undefined behavior.''), g, w)"
  by (simp add: revoke_def)

lemma revoke_ok:
  "established g \<Longrightarrow> outcome w (ncalls w) = 0 \<Longrightarrow>
   revoke g w =
     (Inr (), g\<lparr>established := False\<rparr>,
      w\<lparr>ncalls := Suc (ncalls w),
        disposition := (disposition w)(signal_number g := old_signal_action g)\<rparr>)"
  by (simp add: revoke_def sigaction_ok sysexcept_def)

lemma revoke_fail:
  "established g \<Longrightarrow> outcome w (ncalls w) \<noteq> 0 \<Longrightarrow>
   revoke g w =
     (Inl (System_error ''sigaction'' (outcome w (ncalls w))), g,
      w\<lparr>ncalls := Suc (ncalls w), errno := outcome w (ncalls w)\<rparr>)"
  by (simp add: revoke_def sigaction_fail sysexcept_def)

lemma ignore_ok:
  "outcome w (ncalls w) = 0 \<Longrightarrow>
   ignore K g w =
     (Inr (), g,
      w\<lparr>ncalls := Suc (ncalls w),
        disposition := (disposition w)(signal_number g := ignore_action K)\<rparr>)"
  by (simp add: ignore_def sigaction_ok sysexcept_def)

lemma ignore_fail:
  "outcome w (ncalls w) \<noteq> 0 \<Longrightarrow>
   ignore K g w =
     (Inl (System_error ''sigaction'' (outcome w (ncalls w))), g,
      w\<lparr>ncalls := Suc (ncalls w), errno := outcome w (ncalls w)\<rparr>)"
  by (simp add: ignore_def sigaction_fail sysexcept_def)


lemma exec_established:
  "established g \<Longrightarrow> c \<noteq> Revoke \<Longrightarrow> exec K c g w = (r, g1, w1) \<Longrightarrow> g1 = g"
proof (cases "outcome w (ncalls w) = 0")
  case True
  assume "established g" "c \<noteq> Revoke" "exec K c g w = (r, g1, w1)"
  with True show ?thesis
    by (cases c) (auto simp: establish_ok ignore_ok)
next
  case False
  assume "established g" "c \<noteq> Revoke" "exec K c g w = (r, g1, w1)"
  with False show ?thesis
    by (cases c) (auto simp: establish_fail ignore_fail)
qed

lemma run_established:
  "established g \<Longrightarrow> Revoke \<notin> set cs \<Longrightarrow> run K cs g w = (rs, g', w') \<Longrightarrow> g' = g"
proof (induction cs arbitrary: w rs w')
  case Nil
  then show ?case by simp
next
  case (Cons c cs)
  obtain r g1 w1 where e: "exec K c g w = (r, g1, w1)"
    by (cases "exec K c g w") auto
  obtain rs2 g2 w2 where r2: "run K cs g1 w1 = (rs2, g2, w2)"
    by (cases "run K cs g1 w1") auto
  from Cons.prems e have g1: "g1 = g"
    using exec_established [of g c K w r g1 w1] by auto
  from Cons.prems e r2 have g2: "g2 = g'" by simp
  from Cons.prems have "Revoke \<notin> set cs" by simp
  with Cons.IH [of w1 rs2 w2] Cons.prems(1) r2 g1 g2 show ?case by simp
qed

lemma establish_result:
  "establish g w = (Inr (), g1, w1) \<Longrightarrow>
   outcome w (ncalls w) = 0 \<and>
   g1 = g\<lparr>old_signal_action := (if established g then old_signal_action g
                                 else disposition w (signal_number g)),
          established := True\<rparr> \<and>
   w1 = w\<lparr>ncalls := Suc (ncalls w),
          disposition := (disposition w)(signal_number g := curent_signal_action g)\<rparr>"
  by (cases "outcome w (ncalls w) = 0") (auto simp: establish_ok establish_fail)

lemma revoke_result:
  "revoke g w = (Inr (), g1, w1) \<Longrightarrow>
   established g \<and> outcome w (ncalls w) = 0 \<and> g1 = g\<lparr>established := False\<rparr> \<and>
   w1 = w\<lparr>ncalls := Suc (ncalls w),
          disposition := (disposition w)(signal_number g := old_signal_action g)\<rparr>"
  by (cases "established g"; cases "outcome w (ncalls w) = 0")
     (auto simp: revoke_ok revoke_fail revoke_not_established)

section \<open>revoke on a guard that is not established\<close>

text \<open>
  Claim C6: on every guard whose \<open>established\<close> is false, \<open>revoke\<close> throws the logic
  error and not a system error, makes no call to the operating system (the process state,
  with its call counter, is the one before) and leaves the object, so also
  \<open>established\<close>, as it was.
\<close>

theorem revoke_before_establish:
  "\<not> established g \<Longrightarrow>
   (\<exists>msg. fst (revoke g w) = Inl (Logic_error msg)) \<and>
   snd (revoke g w) = (g, w) \<and>
   \<not> established (fst (snd (revoke g w))) \<and>
   ncalls (snd (snd (revoke g w))) = ncalls w"
  by (simp add: revoke_not_established)

theorem revoke_before_establish_witness:
  "\<not> established guard0 \<and>
   (\<exists>msg. fst (revoke guard0 world0) = Inl (Logic_error msg)) \<and>
   snd (revoke guard0 world0) = (guard0, world0) \<and>
   \<not> established (fst (snd (revoke guard0 world0))) \<and>
   ncalls (snd (snd (revoke guard0 world0))) = ncalls world0"
  using revoke_before_establish [of guard0 world0] by (simp add: guard0_def)

section \<open>ignore\<close>

text \<open>
  Claim C8: in every state of the guard, \<open>ignore\<close> makes one call that asks for the
  discard disposition (handler \<open>SIG_IGN\<close>, everything else zero) for the guard's signal,
  which is the active disposition afterwards whenever the kernel performs the call; the
  object is returned unchanged, and the outcome depends on no member other than
  \<open>signal_number\<close>. On a guard that was never established \<open>established\<close> stays false.
\<close>

theorem ignore_frame:
  "ignore K g w = (r, g', w') \<Longrightarrow>
   g' = g \<and>
   ncalls w' = Suc (ncalls w) \<and>
   (outcome w (ncalls w) = 0 \<longrightarrow>
      r = Inr () \<and> disposition w' = (disposition w)(signal_number g := ignore_action K)) \<and>
   (outcome w (ncalls w) \<noteq> 0 \<longrightarrow>
      r = Inl (System_error ''sigaction'' (outcome w (ncalls w))) \<and>
      disposition w' = disposition w) \<and>
   sa_handler (ignore_action K) = SIG_IGN K \<and>
   (signal_number h = signal_number g \<longrightarrow> ignore K h w = (r, h, w'))"
  by (cases "outcome w (ncalls w) = 0")
     (auto simp: ignore_ok ignore_fail ignore_action_def)

theorem ignore_frame_witness:
  "ignore linux guard0 world0 =
     (Inr (), guard0,
      world0\<lparr>ncalls := 1,
             disposition := (disposition world0)(10 := ignore_action linux)\<rparr>) \<and>
   \<not> established (fst (snd (ignore linux guard0 world0))) \<and>
   sa_handler (disposition (snd (snd (ignore linux guard0 world0))) 10) = SIG_IGN linux"
  using ignore_frame [of linux guard0 world0 "Inr ()" guard0
      "world0\<lparr>ncalls := 1, disposition := (disposition world0)(10 := ignore_action linux)\<rparr>" guard0]
  by (simp add: ignore_ok guard0_def world0_def process_start_def)


section \<open>Construction\<close>

lemma ctor_world: "snd (SignalHandler_ctor K u n h f m w) = w"
  by (simp add: SignalHandler_ctor_def Let_def)

lemma ctor_extended_world: "snd (SignalHandler_ctor_extended K u n h f m w) = w"
  by (simp add: SignalHandler_ctor_extended_def Let_def)

lemma ctor_Inr:
  "SignalHandler_ctor K u n h f m w = (Inr g, w') \<Longrightarrow>
   g = \<lparr>signal_number = n, established = False,
        curent_signal_action =
          zero_sigaction\<lparr>sa_handler := h, sa_flags := f,
            sa_mask := (case m of None \<Rightarrow> {} | Some s \<Rightarrow> s)\<rparr>,
        old_signal_action = u\<rparr>"
  by (auto simp: SignalHandler_ctor_def Let_def zero_sigaction_def
      split: if_splits option.splits)

lemma ctor_extended_Inr:
  "SignalHandler_ctor_extended K u n h f m w = (Inr g, w') \<Longrightarrow>
   g = \<lparr>signal_number = n, established = False,
        curent_signal_action =
          zero_sigaction\<lparr>sa_sigaction := h, sa_flags := f OR SA_SIGINFO K,
            sa_mask := (case m of None \<Rightarrow> {} | Some s \<Rightarrow> s)\<rparr>,
        old_signal_action = u\<rparr>"
  by (auto simp: SignalHandler_ctor_extended_def Let_def zero_sigaction_def
      split: if_splits option.splits)

text \<open>
  Claim C7: neither constructor touches the operating system, whether it succeeds or
  throws: the process state it returns, with the disposition table and the count of
  \<open>sigaction\<close> calls, is the one it was given. On success \<open>established\<close> is false and
  \<open>curent_signal_action\<close> holds the handler, the flags and the mask on a zeroed structure.
  A null handler makes either form throw \<open>std::invalid_argument\<close>.
\<close>

theorem ctor_frame:
  "(SignalHandler_ctor K u n h f m w = (r, w') \<longrightarrow>
      w' = w \<and>
      (h = nullptr \<longrightarrow> (\<exists>msg. r = Inl (Invalid_argument msg))) \<and>
      (\<forall>g. r = Inr g \<longrightarrow>
         \<not> established g \<and> signal_number g = n \<and>
         curent_signal_action g =
           zero_sigaction\<lparr>sa_handler := h, sa_flags := f,
             sa_mask := (case m of None \<Rightarrow> {} | Some s \<Rightarrow> s)\<rparr>)) \<and>
   (SignalHandler_ctor_extended K u n h f m w = (r', w'') \<longrightarrow>
      w'' = w \<and>
      (h = nullptr \<longrightarrow> (\<exists>msg. r' = Inl (Invalid_argument msg))) \<and>
      (\<forall>g. r' = Inr g \<longrightarrow>
         \<not> established g \<and> signal_number g = n \<and>
         curent_signal_action g =
           zero_sigaction\<lparr>sa_sigaction := h, sa_flags := f OR SA_SIGINFO K,
             sa_mask := (case m of None \<Rightarrow> {} | Some s \<Rightarrow> s)\<rparr>))"
proof (intro conjI impI allI)
  assume "SignalHandler_ctor K u n h f m w = (r, w')"
  then show "w' = w" using ctor_world [of K u n h f m w] by simp
next
  assume "SignalHandler_ctor K u n h f m w = (r, w')" "h = nullptr"
  then show "\<exists>msg. r = Inl (Invalid_argument msg)"
    by (auto simp: SignalHandler_ctor_def Let_def)
next
  fix g assume a: "SignalHandler_ctor K u n h f m w = (r, w')" "r = Inr g"
  from a show "\<not> established g" using ctor_Inr [of K u n h f m w g w'] by simp
  from a show "signal_number g = n" using ctor_Inr [of K u n h f m w g w'] by simp
  from a show "curent_signal_action g =
           zero_sigaction\<lparr>sa_handler := h, sa_flags := f,
             sa_mask := (case m of None \<Rightarrow> {} | Some s \<Rightarrow> s)\<rparr>"
    using ctor_Inr [of K u n h f m w g w'] by simp
next
  assume "SignalHandler_ctor_extended K u n h f m w = (r', w'')"
  then show "w'' = w" using ctor_extended_world [of K u n h f m w] by simp
next
  assume "SignalHandler_ctor_extended K u n h f m w = (r', w'')" "h = nullptr"
  then show "\<exists>msg. r' = Inl (Invalid_argument msg)"
    by (auto simp: SignalHandler_ctor_extended_def Let_def)
next
  fix g assume a: "SignalHandler_ctor_extended K u n h f m w = (r', w'')" "r' = Inr g"
  from a show "\<not> established g" using ctor_extended_Inr [of K u n h f m w g w''] by simp
  from a show "signal_number g = n" using ctor_extended_Inr [of K u n h f m w g w''] by simp
  from a show "curent_signal_action g =
           zero_sigaction\<lparr>sa_sigaction := h, sa_flags := f OR SA_SIGINFO K,
             sa_mask := (case m of None \<Rightarrow> {} | Some s \<Rightarrow> s)\<rparr>"
    using ctor_extended_Inr [of K u n h f m w g w''] by simp
qed

lemma ctor_guard0: "SignalHandler_ctor linux stale 10 4242 0 None world0 = (Inr guard0, world0)"
  by (simp add: SignalHandler_ctor_def linux_def guard0_def nullptr_def zero_sigaction_def)

theorem ctor_frame_witness:
  "SignalHandler_ctor linux stale 10 4242 0 None world0 = (Inr guard0, world0) \<and>
   \<not> established guard0 \<and>
   curent_signal_action guard0 = zero_sigaction\<lparr>sa_handler := 4242\<rparr> \<and>
   SignalHandler_ctor linux stale 10 nullptr 0 None world0 =
     (Inl (Invalid_argument
        ''Unable to establish a signal handler with no handler function.''), world0) \<and>
   SignalHandler_ctor_extended linux stale 10 nullptr 0 None world0 =
     (Inl (Invalid_argument
        ''Unable to establish a signal handler with no handler function.''), world0) \<and>
   fst (SignalHandler_ctor_extended linux stale 10 4242 0 (Some {2, 15}) world0) =
     Inr \<lparr>signal_number = 10, established = False,
          curent_signal_action =
            zero_sigaction\<lparr>sa_sigaction := 4242, sa_flags := 4, sa_mask := {2, 15}\<rparr>,
          old_signal_action = stale\<rparr>"
  using ctor_frame [of linux stale 10 4242 0 None world0 "Inr guard0" world0
      "fst (SignalHandler_ctor_extended linux stale 10 4242 0 None world0)" world0]
  by (simp add: SignalHandler_ctor_def SignalHandler_ctor_extended_def linux_def guard0_def
      nullptr_def zero_sigaction_def)



text \<open>The arguments each constructor accepts, and the guard it then builds.\<close>

lemma ctor_succeeds:
  "h \<noteq> nullptr \<Longrightarrow> f AND SA_SIGINFO K = 0 \<Longrightarrow> SIGHUP K \<le> n \<Longrightarrow> n \<le> SIGRTMAX K \<Longrightarrow>
   n \<noteq> SIGKILL K \<Longrightarrow> n \<noteq> SIGSTOP K \<Longrightarrow>
   SignalHandler_ctor K u n h f m w =
     (Inr \<lparr>signal_number = n, established = False,
           curent_signal_action =
             zero_sigaction\<lparr>sa_handler := h, sa_flags := f,
               sa_mask := (case m of None \<Rightarrow> {} | Some s \<Rightarrow> s)\<rparr>,
           old_signal_action = u\<rparr>, w)"
  by (auto simp: SignalHandler_ctor_def Let_def zero_sigaction_def split: option.splits)

lemma ctor_extended_succeeds:
  "h \<noteq> nullptr \<Longrightarrow> SIGHUP K \<le> n \<Longrightarrow> n \<le> SIGRTMAX K \<Longrightarrow> n \<noteq> SIGKILL K \<Longrightarrow>
   SignalHandler_ctor_extended K u n h f m w =
     (Inr \<lparr>signal_number = n, established = False,
           curent_signal_action =
             zero_sigaction\<lparr>sa_sigaction := h, sa_flags := f OR SA_SIGINFO K,
               sa_mask := (case m of None \<Rightarrow> {} | Some s \<Rightarrow> s)\<rparr>,
           old_signal_action = u\<rparr>, w)"
  by (auto simp: SignalHandler_ctor_extended_def Let_def zero_sigaction_def
      split: option.splits)

text \<open>
  Claim C10: with a null \<open>blocked_signals\<close> either constructor, given arguments it
  accepts, builds a guard whose \<open>curent_signal_action\<close> is the zeroed structure with only
  the handler and the flags set: the mask is empty and \<open>sa_restorer\<close> is zero, and every
  guard either form returns has this shape. A simple-form guard built with the default
  arguments (flags 0, no mask) installs, when the kernel performs the call of
  \<open>establish\<close>, a disposition with flags 0 and an empty mask.
\<close>

theorem default_mask_zero:
  "(h \<noteq> nullptr \<and> f AND SA_SIGINFO K = 0 \<and> SIGHUP K \<le> n \<and> n \<le> SIGRTMAX K \<and>
    n \<noteq> SIGKILL K \<and> n \<noteq> SIGSTOP K \<longrightarrow>
      (\<exists>g. SignalHandler_ctor K u n h f None w = (Inr g, w) \<and>
           curent_signal_action g = zero_sigaction\<lparr>sa_handler := h, sa_flags := f\<rparr> \<and>
           sa_handler (curent_signal_action g) = h \<and>
           sa_flags (curent_signal_action g) = f \<and>
           sa_mask (curent_signal_action g) = {} \<and>
           sa_restorer (curent_signal_action g) = 0)) \<and>
   (h \<noteq> nullptr \<and> SIGHUP K \<le> n \<and> n \<le> SIGRTMAX K \<and> n \<noteq> SIGKILL K \<longrightarrow>
      (\<exists>g. SignalHandler_ctor_extended K u n h f None w = (Inr g, w) \<and>
           curent_signal_action g =
             zero_sigaction\<lparr>sa_sigaction := h, sa_flags := f OR SA_SIGINFO K\<rparr> \<and>
           sa_sigaction (curent_signal_action g) = h \<and>
           sa_flags (curent_signal_action g) = f OR SA_SIGINFO K \<and>
           sa_mask (curent_signal_action g) = {} \<and>
           sa_restorer (curent_signal_action g) = 0)) \<and>
   (SignalHandler_ctor K u n h f None w = (Inr g, w') \<longrightarrow>
      curent_signal_action g = zero_sigaction\<lparr>sa_handler := h, sa_flags := f\<rparr> \<and>
      sa_mask (curent_signal_action g) = {} \<and>
      sa_restorer (curent_signal_action g) = 0) \<and>
   (SignalHandler_ctor_extended K u n h f None w = (Inr g', w'') \<longrightarrow>
      curent_signal_action g' =
        zero_sigaction\<lparr>sa_sigaction := h, sa_flags := f OR SA_SIGINFO K\<rparr> \<and>
      sa_mask (curent_signal_action g') = {} \<and>
      sa_restorer (curent_signal_action g') = 0) \<and>
   (h \<noteq> nullptr \<and> SIGHUP K \<le> n \<and> n \<le> SIGRTMAX K \<and> n \<noteq> SIGKILL K \<and> n \<noteq> SIGSTOP K \<and>
    outcome v (ncalls v) = 0 \<longrightarrow>
      (\<exists>d. SignalHandler_ctor K u n h 0 None w = (Inr d, w) \<and>
           result (establish d v) = Inr () \<and>
           disposition (process (establish d v)) n = zero_sigaction\<lparr>sa_handler := h\<rparr> \<and>
           sa_flags (disposition (process (establish d v)) n) = 0 \<and>
           sa_mask (disposition (process (establish d v)) n) = {})) \<and>
   (SignalHandler_ctor K u n h 0 None w = (Inr d, w') \<and>
    establish d v = (Inr (), d', v') \<longrightarrow>
      disposition v' n = zero_sigaction\<lparr>sa_handler := h\<rparr> \<and>
      sa_flags (disposition v' n) = 0 \<and>
      sa_mask (disposition v' n) = {})"
proof (intro conjI impI)
  assume a: "h \<noteq> nullptr \<and> f AND SA_SIGINFO K = 0 \<and> SIGHUP K \<le> n \<and> n \<le> SIGRTMAX K \<and>
    n \<noteq> SIGKILL K \<and> n \<noteq> SIGSTOP K"
  then have "SignalHandler_ctor K u n h f None w =
     (Inr \<lparr>signal_number = n, established = False,
           curent_signal_action =
             zero_sigaction\<lparr>sa_handler := h, sa_flags := f, sa_mask := {}\<rparr>,
           old_signal_action = u\<rparr>, w)"
    using ctor_succeeds [of h f K n u None w] by simp
  then show "\<exists>g. SignalHandler_ctor K u n h f None w = (Inr g, w) \<and>
           curent_signal_action g = zero_sigaction\<lparr>sa_handler := h, sa_flags := f\<rparr> \<and>
           sa_handler (curent_signal_action g) = h \<and>
           sa_flags (curent_signal_action g) = f \<and>
           sa_mask (curent_signal_action g) = {} \<and>
           sa_restorer (curent_signal_action g) = 0"
    by (simp add: zero_sigaction_def)
next
  assume a: "h \<noteq> nullptr \<and> SIGHUP K \<le> n \<and> n \<le> SIGRTMAX K \<and> n \<noteq> SIGKILL K"
  then have "SignalHandler_ctor_extended K u n h f None w =
     (Inr \<lparr>signal_number = n, established = False,
           curent_signal_action =
             zero_sigaction\<lparr>sa_sigaction := h, sa_flags := f OR SA_SIGINFO K, sa_mask := {}\<rparr>,
           old_signal_action = u\<rparr>, w)"
    using ctor_extended_succeeds [of h K n u f None w] by simp
  then show "\<exists>g. SignalHandler_ctor_extended K u n h f None w = (Inr g, w) \<and>
           curent_signal_action g =
             zero_sigaction\<lparr>sa_sigaction := h, sa_flags := f OR SA_SIGINFO K\<rparr> \<and>
           sa_sigaction (curent_signal_action g) = h \<and>
           sa_flags (curent_signal_action g) = f OR SA_SIGINFO K \<and>
           sa_mask (curent_signal_action g) = {} \<and>
           sa_restorer (curent_signal_action g) = 0"
    by (simp add: zero_sigaction_def)
next
  assume a: "SignalHandler_ctor K u n h f None w = (Inr g, w')"
  from ctor_Inr [OF a]
  show "curent_signal_action g = zero_sigaction\<lparr>sa_handler := h, sa_flags := f\<rparr>"
    by (simp add: zero_sigaction_def)
  then show "sa_mask (curent_signal_action g) = {}"
    and "sa_restorer (curent_signal_action g) = 0"
    by (simp_all add: zero_sigaction_def)
next
  assume a: "SignalHandler_ctor_extended K u n h f None w = (Inr g', w'')"
  from ctor_extended_Inr [OF a]
  show "curent_signal_action g' =
      zero_sigaction\<lparr>sa_sigaction := h, sa_flags := f OR SA_SIGINFO K\<rparr>"
    by (simp add: zero_sigaction_def)
  then show "sa_mask (curent_signal_action g') = {}"
    and "sa_restorer (curent_signal_action g') = 0"
    by (simp_all add: zero_sigaction_def)
next
  assume a: "h \<noteq> nullptr \<and> SIGHUP K \<le> n \<and> n \<le> SIGRTMAX K \<and> n \<noteq> SIGKILL K \<and>
    n \<noteq> SIGSTOP K \<and> outcome v (ncalls v) = 0"
  then have "SignalHandler_ctor K u n h 0 None w =
     (Inr \<lparr>signal_number = n, established = False,
           curent_signal_action =
             zero_sigaction\<lparr>sa_handler := h, sa_flags := 0, sa_mask := {}\<rparr>,
           old_signal_action = u\<rparr>, w)"
    using ctor_succeeds [of h 0 K n u None w] by simp
  with a show "\<exists>d. SignalHandler_ctor K u n h 0 None w = (Inr d, w) \<and>
           result (establish d v) = Inr () \<and>
           disposition (process (establish d v)) n = zero_sigaction\<lparr>sa_handler := h\<rparr> \<and>
           sa_flags (disposition (process (establish d v)) n) = 0 \<and>
           sa_mask (disposition (process (establish d v)) n) = {}"
    by (simp add: establish_ok zero_sigaction_def)
next
  assume a: "SignalHandler_ctor K u n h 0 None w = (Inr d, w') \<and>
    establish d v = (Inr (), d', v')"
  then have c: "SignalHandler_ctor K u n h 0 None w = (Inr d, w')"
    and e: "establish d v = (Inr (), d', v')" by simp_all
  from ctor_Inr [OF c] have d: "signal_number d = n"
    "curent_signal_action d = zero_sigaction\<lparr>sa_handler := h\<rparr>"
    by (simp_all add: zero_sigaction_def)
  from establish_result [OF e] d
  show "disposition v' n = zero_sigaction\<lparr>sa_handler := h\<rparr>" by simp
  then show "sa_flags (disposition v' n) = 0" and "sa_mask (disposition v' n) = {}"
    by (simp_all add: zero_sigaction_def)
qed

theorem default_mask_zero_witness:
  "(4242 :: fnptr) \<noteq> nullptr \<and> (0 :: 32 word) AND SA_SIGINFO linux = 0 \<and>
   SIGHUP linux \<le> 10 \<and> 10 \<le> SIGRTMAX linux \<and> 10 \<noteq> SIGKILL linux \<and> 10 \<noteq> SIGSTOP linux \<and>
   SignalHandler_ctor linux stale 10 4242 0 None world0 = (Inr guard0, world0) \<and>
   curent_signal_action guard0 = zero_sigaction\<lparr>sa_handler := 4242\<rparr> \<and>
   sa_mask (curent_signal_action guard0) = {} \<and>
   SignalHandler_ctor_extended linux stale 10 4242 0 None world0 =
     (Inr (guard0\<lparr>curent_signal_action :=
        zero_sigaction\<lparr>sa_sigaction := 4242, sa_flags := 4\<rparr>\<rparr>), world0) \<and>
   sa_mask (zero_sigaction\<lparr>sa_sigaction := 4242, sa_flags := 4\<rparr>) = {} \<and>
   sa_restorer (zero_sigaction\<lparr>sa_sigaction := 4242, sa_flags := 4\<rparr>) = 0 \<and>
   outcome world0 (ncalls world0) = 0 \<and>
   result (establish guard0 world0) = Inr () \<and>
   sa_flags (disposition (process (establish guard0 world0)) 10) = 0 \<and>
   sa_mask (disposition (process (establish guard0 world0)) 10) = {} \<and>
   sa_handler (disposition (process (establish guard0 world0)) 10) = 4242"
  using default_mask_zero [where K = linux and u = stale and n = 10 and h = 4242 and f = 0
      and w = world0 and v = world0]
    ctor_guard0
  by (simp add: SignalHandler_ctor_extended_def establish_ok world0_def process_start_def
      guard0_def linux_def nullptr_def zero_sigaction_def)

section \<open>Destruction\<close>

text \<open>
  Claim C5: the destructor of an established guard makes the restoring call of \<open>revoke\<close>.
  When the kernel refuses it, the system error is written to the stream \<open>error_stream\<close>
  points to and the process exits with status \<open>EX_OSERR\<close>; when the kernel performs it,
  the destructor returns, nothing is written and the old action is active again. A guard
  that is not established is destroyed without any call. At the start of the process
  \<open>error_stream\<close> is \<open>std::cerr\<close>. The destructor has no exceptional result at all.
\<close>

theorem dtor_policy:
  "(established g \<and> outcome w (ncalls w) \<noteq> 0 \<longrightarrow>
      (\<exists>w'. SignalHandler_dtor K g w = (Exited (EX_OSERR K), w') \<and>
            written w' (error_stream w) =
              written w (error_stream w) @ [System_error ''sigaction'' (outcome w (ncalls w))] \<and>
            ncalls w' = Suc (ncalls w) \<and>
            disposition w' = disposition w)) \<and>
   (established g \<and> outcome w (ncalls w) = 0 \<longrightarrow>
      (\<exists>w'. SignalHandler_dtor K g w = (Returned, w') \<and>
            written w' = written w \<and>
            ncalls w' = Suc (ncalls w) \<and>
            disposition w' = (disposition w)(signal_number g := old_signal_action g))) \<and>
   (\<not> established g \<longrightarrow> SignalHandler_dtor K g w = (Returned, w)) \<and>
   error_stream (process_start table answers) = Cerr"
  by (simp add: SignalHandler_dtor_def revoke_ok revoke_fail
      destructor_exception_terminate_def process_start_def)

theorem dtor_policy_witness:
  "established (guard0\<lparr>established := True\<rparr>) \<and>
   outcome failing_world (ncalls failing_world) \<noteq> 0 \<and>
   fst (SignalHandler_dtor linux (guard0\<lparr>established := True\<rparr>) failing_world) = Exited 71 \<and>
   written (snd (SignalHandler_dtor linux (guard0\<lparr>established := True\<rparr>) failing_world)) Cerr =
     [System_error ''sigaction'' 22] \<and>
   outcome world0 (ncalls world0) = 0 \<and>
   fst (SignalHandler_dtor linux (guard0\<lparr>established := True\<rparr>) world0) = Returned \<and>
   disposition (snd (SignalHandler_dtor linux (guard0\<lparr>established := True\<rparr>) world0)) 10 = stale \<and>
   \<not> established guard0 \<and>
   SignalHandler_dtor linux guard0 world0 = (Returned, world0)"
  using dtor_policy [of "guard0\<lparr>established := True\<rparr>" failing_world linux]
    dtor_policy [of "guard0\<lparr>established := True\<rparr>" world0 linux]
    dtor_policy [of guard0 world0 linux]
  by (auto simp: guard0_def world0_def failing_world_def process_start_def linux_def)

section \<open>The saved action over sequences of calls\<close>

lemma world0_fields:
  "outcome world0 = (\<lambda>k. 0)" "ncalls world0 = 0" "disposition world0 = (\<lambda>n. zero_sigaction)"
  by (simp_all add: world0_def process_start_def)

lemma guard0_fields:
  "signal_number guard0 = 10" "\<not> established guard0"
  "curent_signal_action guard0 = zero_sigaction\<lparr>sa_handler := 4242\<rparr>"
  "old_signal_action guard0 = stale"
  by (simp_all add: guard0_def)

lemma ignore_action_linux: "ignore_action linux \<noteq> zero_sigaction"
  by (simp add: ignore_action_def linux_def zero_sigaction_def)

lemma exec_changes_old:
  "exec K c g w = (r, g2, w2) \<Longrightarrow> old_signal_action g2 \<noteq> old_signal_action g \<Longrightarrow>
   c = Establish \<and> \<not> established g \<and> r = Inr ()"
  by (cases c; cases "outcome w (ncalls w) = 0"; cases "established g")
     (auto simp: establish_ok establish_fail revoke_ok revoke_fail revoke_not_established
        ignore_ok ignore_fail)


lemma run_append:
  "run K (cs @ ds) g w =
     (case run K cs g w of (rs, g1, w1) \<Rightarrow>
        case run K ds g1 w1 of (rs', g2, w2) \<Rightarrow> (rs @ rs', g2, w2))"
  by (induction cs arbitrary: g w) (simp_all split: prod.splits)

text \<open>
  Which calls change \<open>old_signal_action\<close>: only a successful \<open>establish\<close> that finds
  \<open>established\<close> false, which stores the disposition active just before the call. From an
  established guard on, \<open>establish\<close> and \<open>ignore\<close> calls leave it as it is.
\<close>

lemma saved_action_changes:
  "(established g \<and> Revoke \<notin> set cs \<longrightarrow>
      established (object (run K cs g w)) \<and>
      old_signal_action (object (run K cs g w)) = old_signal_action g) \<and>
   (\<not> established g \<and> result (establish g w) = Inr () \<longrightarrow>
      established (object (establish g w)) \<and>
      old_signal_action (object (establish g w)) = disposition w (signal_number g)) \<and>
   (old_signal_action (object (exec K c g w)) \<noteq> old_signal_action g \<longrightarrow>
      c = Establish \<and> \<not> established g \<and> result (exec K c g w) = Inr ())"
proof (intro conjI impI)
  assume a: "established g \<and> Revoke \<notin> set cs"
  obtain rs g' w' where r: "run K cs g w = (rs, g', w')"
    by (cases "run K cs g w") auto
  with a have "g' = g" using run_established [of g cs K w rs g' w'] by simp
  with a r show "established (object (run K cs g w))"
    and "old_signal_action (object (run K cs g w)) = old_signal_action g"
    by simp_all
next
  assume a: "\<not> established g \<and> result (establish g w) = Inr ()"
  obtain g1 w1 where e: "establish g w = (Inr (), g1, w1)"
    using a by (cases "establish g w") auto
  from establish_result [OF e] a e
  show "established (object (establish g w))"
    and "old_signal_action (object (establish g w)) = disposition w (signal_number g)"
    by simp_all
next
  assume a: "old_signal_action (object (exec K c g w)) \<noteq> old_signal_action g"
  obtain r g2 w2 where e: "exec K c g w = (r, g2, w2)"
    by (cases "exec K c g w") auto
  with a have "old_signal_action g2 \<noteq> old_signal_action g" by simp
  from exec_changes_old [OF e this] e
  show "c = Establish" and "\<not> established g" and "result (exec K c g w) = Inr ()"
    by simp_all
qed

text \<open>
  Claim C1 against the code: the header says of \<open>revoke\<close> that it brings back the handler
  "which was specified before calling establish() the first time", and \<open>establish\<close> calls
  its capturing branch the "initial call". A guard is constructed, established (the
  default action is saved), revoked, set to ignore and established again. Every call
  succeeds, and the second \<open>establish\<close>, finding \<open>established\<close> false again, overwrites
  \<open>old_signal_action\<close> with the discard action that was active at that moment.
\<close>

theorem prior_recaptured_after_revoke:
  "SignalHandler_ctor linux stale 10 4242 0 None world0 = (Inr guard0, world0) \<and>
   result (run linux [Establish] guard0 world0) = [Inr ()] \<and>
   established (object (run linux [Establish] guard0 world0)) \<and>
   old_signal_action (object (run linux [Establish] guard0 world0)) = zero_sigaction \<and>
   result (run linux [Establish, Revoke, Ignore, Establish] guard0 world0) =
     [Inr (), Inr (), Inr (), Inr ()] \<and>
   old_signal_action (object (run linux [Establish, Revoke, Ignore, Establish] guard0 world0))
     = ignore_action linux \<and>
   ignore_action linux \<noteq> zero_sigaction"
  by (simp add: ctor_guard0 establish_ok revoke_ok ignore_ok world0_fields guard0_fields
      ignore_action_linux)

section \<open>The round trip of establish and revoke\<close>

lemma roundtrip_run:
  assumes ne: "\<not> established g"
    and cs: "Revoke \<notin> set cs"
    and first: "hd (result (run K (Establish # cs @ [Revoke]) g w)) = Inr ()"
    and final: "last (result (run K (Establish # cs @ [Revoke]) g w)) = Inr ()"
  shows "disposition (process (run K (Establish # cs @ [Revoke]) g w)) (signal_number g) =
           disposition w (signal_number g) \<and>
         \<not> established (object (run K (Establish # cs @ [Revoke]) g w))"
proof -
  obtain r1 g1 w1 where e: "establish g w = (r1, g1, w1)"
    by (cases "establish g w") auto
  obtain rs g2 w2 where r: "run K cs g1 w1 = (rs, g2, w2)"
    by (cases "run K cs g1 w1") auto
  obtain r3 g3 w3 where v: "revoke g2 w2 = (r3, g3, w3)"
    by (cases "revoke g2 w2") auto
  have all: "run K (Establish # cs @ [Revoke]) g w = (r1 # rs @ [r3], g3, w3)"
    using e r v by (simp add: run_append)
  from first all have "r1 = Inr ()" by simp
  with e have e': "establish g w = (Inr (), g1, w1)" by simp
  from final all have "r3 = Inr ()" by simp
  with v have v': "revoke g2 w2 = (Inr (), g3, w3)" by simp
  from establish_result [OF e'] ne
  have g1: "g1 = g\<lparr>old_signal_action := disposition w (signal_number g), established := True\<rparr>"
    by simp
  then have "established g1" by simp
  from run_established [OF this cs r] have g2: "g2 = g1" .
  from revoke_result [OF v'] g2 g1
  have "disposition w3 (signal_number g) = disposition w (signal_number g)"
    and "\<not> established g3"
    by simp_all
  with all show ?thesis by simp
qed

lemma establish_twice:
  assumes "result (establish g w) = Inr ()"
  shows "old_signal_action (object (run K [Establish, Establish] g w)) =
         old_signal_action (object (establish g w))"
proof -
  obtain g1 w1 where e: "establish g w = (Inr (), g1, w1)"
    using assms by (cases "establish g w") auto
  from establish_result [OF e] have "established g1" by simp
  obtain r2 g2 w2 where e2: "establish g1 w1 = (r2, g2, w2)"
    by (cases "establish g1 w1") auto
  from exec_established [of g1 Establish K w1 r2 g2 w2] \<open>established g1\<close> e2
  have "g2 = g1" by simp
  with e e2 show ?thesis by simp
qed

text \<open>
  Within one cycle the round trip holds: a successful \<open>establish\<close> makes
  \<open>curent_signal_action\<close> the active disposition; a guard that is not established, once
  established, used with further \<open>establish\<close> and \<open>ignore\<close> calls and then revoked, leaves
  active what was active just before the \<open>establish\<close> that opened the cycle; and a second
  \<open>establish\<close> keeps what the first one saved.
\<close>

lemma roundtrip_one_cycle:
  "(result (establish g w) = Inr () \<longrightarrow>
      disposition (process (establish g w)) (signal_number g) = curent_signal_action g) \<and>
   (\<not> established g \<and> Revoke \<notin> set cs \<and>
    hd (result (run K (Establish # cs @ [Revoke]) g w)) = Inr () \<and>
    last (result (run K (Establish # cs @ [Revoke]) g w)) = Inr () \<longrightarrow>
      disposition (process (run K (Establish # cs @ [Revoke]) g w)) (signal_number g) =
        disposition w (signal_number g) \<and>
      \<not> established (object (run K (Establish # cs @ [Revoke]) g w))) \<and>
   (result (establish g w) = Inr () \<longrightarrow>
      old_signal_action (object (run K [Establish, Establish] g w)) =
        old_signal_action (object (establish g w)))"
proof (intro conjI impI)
  assume a: "result (establish g w) = Inr ()"
  obtain g1 w1 where e: "establish g w = (Inr (), g1, w1)"
    using a by (cases "establish g w") auto
  from establish_result [OF e] e
  show "disposition (process (establish g w)) (signal_number g) = curent_signal_action g"
    by simp
  from establish_twice [OF a]
  show "old_signal_action (object (run K [Establish, Establish] g w)) =
        old_signal_action (object (establish g w))" .
next
  assume a: "\<not> established g \<and> Revoke \<notin> set cs \<and>
    hd (result (run K (Establish # cs @ [Revoke]) g w)) = Inr () \<and>
    last (result (run K (Establish # cs @ [Revoke]) g w)) = Inr ()"
  then have "disposition (process (run K (Establish # cs @ [Revoke]) g w)) (signal_number g) =
           disposition w (signal_number g) \<and>
         \<not> established (object (run K (Establish # cs @ [Revoke]) g w))"
    using roundtrip_run [of g cs K w] by blast
  then show "disposition (process (run K (Establish # cs @ [Revoke]) g w)) (signal_number g) =
           disposition w (signal_number g)"
    and "\<not> established (object (run K (Establish # cs @ [Revoke]) g w))"
    by blast+
qed

text \<open>
  Claim C4 against the code: in a second cycle on the same object the round trip does not
  lead back to what was active before the object's first \<open>establish\<close>, as the header
  promises for \<open>revoke\<close>. After construction, establish, revoke, ignore, establish, revoke
  (all succeeding) the active disposition of signal 10 is the discard action that the
  second \<open>establish\<close> captured, not the default action of the start.
\<close>

theorem second_cycle_restores_recaptured:
  "SignalHandler_ctor linux stale 10 4242 0 None world0 = (Inr guard0, world0) \<and>
   disposition world0 10 = zero_sigaction \<and>
   result (run linux [Establish, Revoke, Ignore, Establish, Revoke] guard0 world0) =
     [Inr (), Inr (), Inr (), Inr (), Inr ()] \<and>
   disposition (process (run linux [Establish, Revoke, Ignore, Establish, Revoke]
      guard0 world0)) 10 = ignore_action linux \<and>
   ignore_action linux \<noteq> zero_sigaction"
  by (simp add: ctor_guard0 establish_ok revoke_ok ignore_ok world0_fields guard0_fields
      ignore_action_linux)

section \<open>Moves\<close>

lemma world1_fields:
  "outcome world1 = (\<lambda>k. 0)" "ncalls world1 = 1"
  "disposition world1 = (\<lambda>n. zero_sigaction)(10 := zero_sigaction\<lparr>sa_handler := 4242\<rparr>)"
  by (simp_all add: world1_def establish_ok world0_fields guard0_fields)

lemma store0_fields:
  "store0 0 = guard0\<lparr>old_signal_action := zero_sigaction, established := True\<rparr>"
  "store0 (Suc 0) = guard0"
  by (simp_all add: store0_def establish_ok world0_fields guard0_fields)

text \<open>
  Neither move writes to its source: the source keeps every member, \<open>established\<close>
  included, and the destination receives a copy.
\<close>

lemma move_ctor_source:
  "this \<noteq> other \<Longrightarrow>
   SignalHandler_move this other s other = s other \<and>
   SignalHandler_move this other s this = s other"
  by (simp add: SignalHandler_move_def)

lemma move_assign_source:
  "this \<noteq> other \<Longrightarrow>
   move_assign this other s other = s other \<and>
   move_assign this other s this = s other"
  by (simp add: move_assign_def)

lemma move_assign_self: "move_assign this this s = s"
  by (simp add: move_assign_def)

text \<open>
  Claim C2 against the code: the guard at address 0 is established, then moved to address
  1 by the move constructor. The moved-from guard is still established, so destroying it
  makes a restoring call that changes the active disposition of signal 10 from the
  guard's handler back to the default action, and destroying the new guard makes the
  restoring call a second time. Move assignment leaves the source established in the
  same way.
\<close>

theorem moved_from_guard_restores:
  "established (store0 0) \<and>
   established (SignalHandler_move 1 0 store0 0) \<and>
   established (SignalHandler_move 1 0 store0 1) \<and>
   disposition world1 10 = curent_signal_action guard0 \<and>
   curent_signal_action guard0 \<noteq> zero_sigaction \<and>
   fst (destroy linux 0 (SignalHandler_move 1 0 store0) world1) = Returned \<and>
   ncalls (snd (destroy linux 0 (SignalHandler_move 1 0 store0) world1)) = Suc (ncalls world1) \<and>
   disposition (snd (destroy linux 0 (SignalHandler_move 1 0 store0) world1)) 10 =
     zero_sigaction \<and>
   ncalls (snd (destroy linux 1 (SignalHandler_move 1 0 store0)
     (snd (destroy linux 0 (SignalHandler_move 1 0 store0) world1)))) =
     Suc (Suc (ncalls world1)) \<and>
   \<not> established (store0 1) \<and>
   established (move_assign 1 0 store0 0) \<and>
   established (move_assign 1 0 store0 1) \<and>
   ncalls (snd (destroy linux 0 (move_assign 1 0 store0) world1)) = Suc (ncalls world1) \<and>
   disposition (snd (destroy linux 0 (move_assign 1 0 store0) world1)) 10 = zero_sigaction"
  by (simp add: destroy_def SignalHandler_dtor_def SignalHandler_move_def move_assign_def
      revoke_ok world1_fields store0_fields guard0_fields zero_sigaction_def)

section \<open>The signals that cannot be caught\<close>

lemma ctor_rejects_kill_stop:
  "n = SIGKILL K \<or> n = SIGSTOP K \<Longrightarrow>
   \<exists>msg. SignalHandler_ctor K u n h f m w = (Inl (Invalid_argument msg), w)"
  by (auto simp: SignalHandler_ctor_def Let_def)

lemma ctor_extended_accepts_stop:
  "h \<noteq> nullptr \<Longrightarrow> SIGHUP K \<le> SIGSTOP K \<Longrightarrow> SIGSTOP K \<le> SIGRTMAX K \<Longrightarrow>
   SIGSTOP K \<noteq> SIGKILL K \<Longrightarrow>
   \<exists>g. SignalHandler_ctor_extended K u (SIGSTOP K) h f m w = (Inr g, w)"
  by (auto simp: SignalHandler_ctor_extended_def Let_def)

text \<open>
  Claim C3 against the code: with the constants of Linux the extended form constructs a
  guard for \<open>SIGSTOP\<close>, because its second test repeats the comparison with \<open>SIGKILL\<close>.
  The simple form rejects \<open>SIGSTOP\<close> with \<open>std::invalid_argument\<close>; the extended form
  rejects \<open>SIGKILL\<close> with \<open>std::logic_error\<close>.
\<close>

theorem extended_ctor_accepts_SIGSTOP:
  "SignalHandler_ctor_extended linux stale (SIGSTOP linux) 4242 0 None world0 =
     (Inr \<lparr>signal_number = 19, established = False,
           curent_signal_action = zero_sigaction\<lparr>sa_sigaction := 4242, sa_flags := 4\<rparr>,
           old_signal_action = stale\<rparr>, world0) \<and>
   SignalHandler_ctor linux stale (SIGSTOP linux) 4242 0 None world0 =
     (Inl (Invalid_argument ''Action for signal SIGSTOP can not be changed.''), world0) \<and>
   SignalHandler_ctor_extended linux stale (SIGKILL linux) 4242 0 None world0 =
     (Inl (Logic_error ''Action for signal SIGKILL can not be changed.''), world0)"
  by (simp add: SignalHandler_ctor_extended_def SignalHandler_ctor_def linux_def nullptr_def
      zero_sigaction_def)

end
